theory Spec2Isabelle
  imports Main
begin

section \<open>Python values\<close>

text \<open>
  The scanner of \<^verbatim>\<open>new_cadastr_kvartal.py\<close> works on what \<^verbatim>\<open>json.load\<close> and
  \<^verbatim>\<open>response.json()\<close> return: \<^verbatim>\<open>None\<close>, booleans, integers, strings, lists and
  dictionaries with string keys. Floating-point numbers are left out of the value type.
  A dictionary is an association list in insertion order; where a key occurs twice the
  last binding counts, as in Python. A string is the list of its UTF-8 bytes.
\<close>

datatype json =
    JNull
  | JBool bool
  | JInt int
  | JStr string
  | JArr "json list"
  | JObj "(string \<times> json) list"

datatype py_error =
  AttributeError | TypeError | KeyError | ZeroDivisionError | OverflowError | PandasError

definition py_bind :: "py_error + 'a \<Rightarrow> ('a \<Rightarrow> py_error + 'b) \<Rightarrow> py_error + 'b" where
  "py_bind m f = (case m of Inl e \<Rightarrow> Inl e | Inr x \<Rightarrow> f x)"

text \<open>\<^verbatim>\<open>d.get(k, default)\<close> on a value known to be a dictionary.\<close>

definition dict_get :: "(string \<times> json) list \<Rightarrow> string \<Rightarrow> json \<Rightarrow> json" where
  "dict_get kv k d = (case map_of (rev kv) k of None \<Rightarrow> d | Some v \<Rightarrow> v)"

text \<open>\<^verbatim>\<open>x.get(k, default)\<close>: only a dictionary has the method.\<close>

fun py_get :: "json \<Rightarrow> string \<Rightarrow> json \<Rightarrow> py_error + json" where
  "py_get (JObj kv) k d = Inr (dict_get kv k d)"
| "py_get _ k d = Inl AttributeError"

text \<open>\<^verbatim>\<open>x[k]\<close> with a string key \<open>k\<close>.\<close>

fun py_getitem :: "json \<Rightarrow> string \<Rightarrow> py_error + json" where
  "py_getitem (JObj kv) k = (case map_of (rev kv) k of None \<Rightarrow> Inl KeyError | Some v \<Rightarrow> Inr v)"
| "py_getitem _ k = Inl TypeError"

text \<open>Truth value of a Python object, as \<^verbatim>\<open>if x:\<close> and \<^verbatim>\<open>x or y\<close> take it.\<close>

fun py_truthy :: "json \<Rightarrow> bool" where
  "py_truthy JNull = False"
| "py_truthy (JBool b) = b"
| "py_truthy (JInt i) = (i \<noteq> 0)"
| "py_truthy (JStr s) = (s \<noteq> [])"
| "py_truthy (JArr xs) = (xs \<noteq> [])"
| "py_truthy (JObj kv) = (kv \<noteq> [])"

text \<open>
  \<^verbatim>\<open>len(x)\<close>. The length of a string is its number of code points, that is the number
  of bytes that are not UTF-8 continuation bytes (\<open>0x80\<close> to \<open>0xBF\<close>).
\<close>

definition is_continuation :: "char \<Rightarrow> bool" where
  "is_continuation c = (128 \<le> (of_char c :: nat) \<and> (of_char c :: nat) < 192)"

fun py_len :: "json \<Rightarrow> py_error + int" where
  "py_len (JStr s) = Inr (int (length (filter (\<lambda>c. \<not> is_continuation c) s)))"
| "py_len (JArr xs) = Inr (int (length xs))"
| "py_len (JObj kv) = Inr (int (length (remdups (map fst kv))))"
| "py_len _ = Inl TypeError"

text \<open>\<^verbatim>\<open>x + 1\<close>: defined on integers and booleans (\<^verbatim>\<open>True + 1 == 2\<close>).\<close>

fun py_add1 :: "json \<Rightarrow> py_error + int" where
  "py_add1 (JInt i) = Inr (i + 1)"
| "py_add1 (JBool b) = Inr ((if b then 1 else 0) + 1)"
| "py_add1 _ = Inl TypeError"

text \<open>
  The elements \<^verbatim>\<open>for feature in x\<close> visits: the items of a list, the keys of a
  dictionary, the characters of a string (one string per code point, given here by its
  first byte); anything else is not iterable.
\<close>

fun py_iter :: "json \<Rightarrow> py_error + json list" where
  "py_iter (JArr xs) = Inr xs"
| "py_iter (JObj kv) = Inr (map JStr (remdups (map fst kv)))"
| "py_iter (JStr s) = Inr (map (\<lambda>c. JStr [c]) (filter (\<lambda>c. \<not> is_continuation c) s))"
| "py_iter _ = Inl TypeError"

text \<open>\<^verbatim>\<open>str(n)\<close> of an integer, for the f-string of line 184.\<close>

definition digit_char :: "nat \<Rightarrow> char" where
  "digit_char n = ''0123456789'' ! n"

function str_nat :: "nat \<Rightarrow> string" where
  "str_nat n = (if n < 10 then [digit_char n] else str_nat (n div 10) @ [digit_char (n mod 10)])"
  by pat_completeness auto
termination
  by (relation "measure id") auto

definition str_int :: "int \<Rightarrow> string" where
  "str_int i = (if i < 0 then CHR ''-'' # str_nat (nat (- i)) else str_nat (nat i))"

text \<open>
  Python's integers are unbounded, its floats are IEEE doubles. The true division
  \<^verbatim>\<open>a / b\<close> of two integers gives the correctly rounded quotient and raises
  \<^verbatim>\<open>OverflowError\<close> when that is no double, which is when the quotient reaches
  \<open>2 ^ 1024 - 2 ^ 970\<close> in magnitude (it would round to \<open>2 ^ 1024\<close>); the
  conversion of an integer to a float, as in \<^verbatim>\<open>a / x\<close> for a float \<open>x\<close>, raises it
  from the same magnitude on. A zero divisor is tested first in the former, the
  conversion is made first in the latter.
\<close>

definition FLOAT_LIMIT :: int where
  "FLOAT_LIMIT = 2 ^ 1024 - 2 ^ 970"

definition true_div_overflows :: "int \<Rightarrow> int \<Rightarrow> bool" where
  "true_div_overflows a b = (FLOAT_LIMIT * \<bar>b\<bar> \<le> \<bar>a\<bar>)"

definition float_overflows :: "int \<Rightarrow> bool" where
  "float_overflows a = (FLOAT_LIMIT \<le> \<bar>a\<bar>)"

text \<open>\<^verbatim>\<open>s.replace(':', '_')\<close> of lines 45 and 46.\<close>

definition replace_colons :: "string \<Rightarrow> string" where
  "replace_colons s = map (\<lambda>c. if c = CHR '':'' then CHR ''_'' else c) s"

section \<open>String constants of the source\<close>

text \<open>
  The Russian literals of the source, as UTF-8 bytes: the category of a registered land
  parcel, the fourteen keys of a parcel record in the order of lines 153 to 166, and the
  two constant values.
\<close>

definition LAND_CATEGORY :: string where \<comment> \<open>the value of categoryName that marks a registered land parcel (line 149)\<close>
  "LAND_CATEGORY =
    [CHR 0xD0, CHR 0x97, CHR 0xD0, CHR 0xB5, CHR 0xD0, CHR 0xBC, CHR 0xD0, CHR 0xB5,
     CHR 0xD0, CHR 0xBB, CHR 0xD1, CHR 0x8C, CHR 0xD0, CHR 0xBD, CHR 0xD1, CHR 0x8B,
     CHR 0xD0, CHR 0xB5, CHR 0x20, CHR 0xD1, CHR 0x83, CHR 0xD1, CHR 0x87, CHR 0xD0,
     CHR 0xB0, CHR 0xD1, CHR 0x81, CHR 0xD1, CHR 0x82, CHR 0xD0, CHR 0xBA, CHR 0xD0,
     CHR 0xB8, CHR 0x20, CHR 0xD0, CHR 0x95, CHR 0xD0, CHR 0x93, CHR 0xD0, CHR 0xA0,
     CHR 0xD0, CHR 0x9D]"

definition K_CAD_NUM :: string where \<comment> \<open>cadastral number\<close>
  "K_CAD_NUM =
    [CHR 0xD0, CHR 0x9A, CHR 0xD0, CHR 0xB0, CHR 0xD0, CHR 0xB4, CHR 0xD0, CHR 0xB0,
     CHR 0xD1, CHR 0x81, CHR 0xD1, CHR 0x82, CHR 0xD1, CHR 0x80, CHR 0xD0, CHR 0xBE,
     CHR 0xD0, CHR 0xB2, CHR 0xD1, CHR 0x8B, CHR 0xD0, CHR 0xB9, CHR 0x20, CHR 0xD0,
     CHR 0xBD, CHR 0xD0, CHR 0xBE, CHR 0xD0, CHR 0xBC, CHR 0xD0, CHR 0xB5, CHR 0xD1,
     CHR 0x80]"

definition K_ADDRESS :: string where \<comment> \<open>address\<close>
  "K_ADDRESS =
    [CHR 0xD0, CHR 0x90, CHR 0xD0, CHR 0xB4, CHR 0xD1, CHR 0x80, CHR 0xD0, CHR 0xB5,
     CHR 0xD1, CHR 0x81]"

definition K_AREA :: string where \<comment> \<open>area\<close>
  "K_AREA =
    [CHR 0xD0, CHR 0x9F, CHR 0xD0, CHR 0xBB, CHR 0xD0, CHR 0xBE, CHR 0xD1, CHR 0x89,
     CHR 0xD0, CHR 0xB0, CHR 0xD0, CHR 0xB4, CHR 0xD1, CHR 0x8C, CHR 0x20, CHR 0x28,
     CHR 0xD0, CHR 0xBA, CHR 0xD0, CHR 0xB2, CHR 0x2E, CHR 0xD0, CHR 0xBC, CHR 0x29]"

definition K_LAND_CATEGORY :: string where \<comment> \<open>land category\<close>
  "K_LAND_CATEGORY =
    [CHR 0xD0, CHR 0x9A, CHR 0xD0, CHR 0xB0, CHR 0xD1, CHR 0x82, CHR 0xD0, CHR 0xB5,
     CHR 0xD0, CHR 0xB3, CHR 0xD0, CHR 0xBE, CHR 0xD1, CHR 0x80, CHR 0xD0, CHR 0xB8,
     CHR 0xD1, CHR 0x8F, CHR 0x20, CHR 0xD0, CHR 0xB7, CHR 0xD0, CHR 0xB5, CHR 0xD0,
     CHR 0xBC, CHR 0xD0, CHR 0xBB, CHR 0xD0, CHR 0xB8]"

definition K_USAGE :: string where \<comment> \<open>usage type\<close>
  "K_USAGE =
    [CHR 0xD0, CHR 0x92, CHR 0xD0, CHR 0xB8, CHR 0xD0, CHR 0xB4, CHR 0x20, CHR 0xD0,
     CHR 0xB8, CHR 0xD1, CHR 0x81, CHR 0xD0, CHR 0xBF, CHR 0xD0, CHR 0xBE, CHR 0xD0,
     CHR 0xBB, CHR 0xD1, CHR 0x8C, CHR 0xD0, CHR 0xB7, CHR 0xD0, CHR 0xBE, CHR 0xD0,
     CHR 0xB2, CHR 0xD0, CHR 0xB0, CHR 0xD0, CHR 0xBD, CHR 0xD0, CHR 0xB8, CHR 0xD1,
     CHR 0x8F]"

definition K_STATUS :: string where \<comment> \<open>status\<close>
  "K_STATUS =
    [CHR 0xD0, CHR 0xA1, CHR 0xD1, CHR 0x82, CHR 0xD0, CHR 0xB0, CHR 0xD1, CHR 0x82,
     CHR 0xD1, CHR 0x83, CHR 0xD1, CHR 0x81]"

definition K_COST :: string where \<comment> \<open>assessed value\<close>
  "K_COST =
    [CHR 0xD0, CHR 0x9A, CHR 0xD0, CHR 0xB0, CHR 0xD0, CHR 0xB4, CHR 0xD0, CHR 0xB0,
     CHR 0xD1, CHR 0x81, CHR 0xD1, CHR 0x82, CHR 0xD1, CHR 0x80, CHR 0xD0, CHR 0xBE,
     CHR 0xD0, CHR 0xB2, CHR 0xD0, CHR 0xB0, CHR 0xD1, CHR 0x8F, CHR 0x20, CHR 0xD1,
     CHR 0x81, CHR 0xD1, CHR 0x82, CHR 0xD0, CHR 0xBE, CHR 0xD0, CHR 0xB8, CHR 0xD0,
     CHR 0xBC, CHR 0xD0, CHR 0xBE, CHR 0xD1, CHR 0x81, CHR 0xD1, CHR 0x82, CHR 0xD1,
     CHR 0x8C]"

definition K_COST_DATE :: string where \<comment> \<open>assessment date\<close>
  "K_COST_DATE =
    [CHR 0xD0, CHR 0x94, CHR 0xD0, CHR 0xB0, CHR 0xD1, CHR 0x82, CHR 0xD0, CHR 0xB0,
     CHR 0x20, CHR 0xD0, CHR 0xBE, CHR 0xD1, CHR 0x86, CHR 0xD0, CHR 0xB5, CHR 0xD0,
     CHR 0xBD, CHR 0xD0, CHR 0xBA, CHR 0xD0, CHR 0xB8]"

definition K_REG_DATE :: string where \<comment> \<open>registration date\<close>
  "K_REG_DATE =
    [CHR 0xD0, CHR 0x94, CHR 0xD0, CHR 0xB0, CHR 0xD1, CHR 0x82, CHR 0xD0, CHR 0xB0,
     CHR 0x20, CHR 0xD1, CHR 0x80, CHR 0xD0, CHR 0xB5, CHR 0xD0, CHR 0xB3, CHR 0xD0,
     CHR 0xB8, CHR 0xD1, CHR 0x81, CHR 0xD1, CHR 0x82, CHR 0xD1, CHR 0x80, CHR 0xD0,
     CHR 0xB0, CHR 0xD1, CHR 0x86, CHR 0xD0, CHR 0xB8, CHR 0xD0, CHR 0xB8]"

definition K_OWNERSHIP :: string where \<comment> \<open>ownership type\<close>
  "K_OWNERSHIP =
    [CHR 0xD0, CHR 0xA2, CHR 0xD0, CHR 0xB8, CHR 0xD0, CHR 0xBF, CHR 0x20, CHR 0xD1,
     CHR 0x81, CHR 0xD0, CHR 0xBE, CHR 0xD0, CHR 0xB1, CHR 0xD1, CHR 0x81, CHR 0xD1,
     CHR 0x82, CHR 0xD0, CHR 0xB2, CHR 0xD0, CHR 0xB5, CHR 0xD0, CHR 0xBD, CHR 0xD0,
     CHR 0xBD, CHR 0xD0, CHR 0xBE, CHR 0xD1, CHR 0x81, CHR 0xD1, CHR 0x82, CHR 0xD0,
     CHR 0xB8]"

definition K_RIGHT :: string where \<comment> \<open>right type\<close>
  "K_RIGHT =
    [CHR 0xD0, CHR 0xA2, CHR 0xD0, CHR 0xB8, CHR 0xD0, CHR 0xBF, CHR 0x20, CHR 0xD0,
     CHR 0xBF, CHR 0xD1, CHR 0x80, CHR 0xD0, CHR 0xB0, CHR 0xD0, CHR 0xB2, CHR 0xD0,
     CHR 0xB0]"

definition K_COORDINATES :: string where \<comment> \<open>coordinates\<close>
  "K_COORDINATES =
    [CHR 0xD0, CHR 0x9A, CHR 0xD0, CHR 0xBE, CHR 0xD0, CHR 0xBE, CHR 0xD1, CHR 0x80,
     CHR 0xD0, CHR 0xB4, CHR 0xD0, CHR 0xB8, CHR 0xD0, CHR 0xBD, CHR 0xD0, CHR 0xB0,
     CHR 0xD1, CHR 0x82, CHR 0xD1, CHR 0x8B]"

definition K_SOURCE :: string where \<comment> \<open>data source\<close>
  "K_SOURCE =
    [CHR 0xD0, CHR 0x98, CHR 0xD1, CHR 0x81, CHR 0xD1, CHR 0x82, CHR 0xD0, CHR 0xBE,
     CHR 0xD1, CHR 0x87, CHR 0xD0, CHR 0xBD, CHR 0xD0, CHR 0xB8, CHR 0xD0, CHR 0xBA,
     CHR 0x20, CHR 0xD0, CHR 0xB4, CHR 0xD0, CHR 0xB0, CHR 0xD0, CHR 0xBD, CHR 0xD0,
     CHR 0xBD, CHR 0xD1, CHR 0x8B, CHR 0xD1, CHR 0x85]"

definition K_CHECKED :: string where \<comment> \<open>check date\<close>
  "K_CHECKED =
    [CHR 0xD0, CHR 0x94, CHR 0xD0, CHR 0xB0, CHR 0xD1, CHR 0x82, CHR 0xD0, CHR 0xB0,
     CHR 0x20, CHR 0xD0, CHR 0xBF, CHR 0xD1, CHR 0x80, CHR 0xD0, CHR 0xBE, CHR 0xD0,
     CHR 0xB2, CHR 0xD0, CHR 0xB5, CHR 0xD1, CHR 0x80, CHR 0xD0, CHR 0xBA, CHR 0xD0,
     CHR 0xB8]"

definition V_NO_ADDRESS :: string where \<comment> \<open>default address\<close>
  "V_NO_ADDRESS =
    [CHR 0xD0, CHR 0x9D, CHR 0xD0, CHR 0xB5, CHR 0x20, CHR 0xD1, CHR 0x83, CHR 0xD0,
     CHR 0xBA, CHR 0xD0, CHR 0xB0, CHR 0xD0, CHR 0xB7, CHR 0xD0, CHR 0xB0, CHR 0xD0,
     CHR 0xBD]"

definition V_SOURCE :: string where \<comment> \<open>data source tag\<close>
  "V_SOURCE =
    [CHR 0xD0, CHR 0x9D, CHR 0xD0, CHR 0xA1, CHR 0xD0, CHR 0x9F, CHR 0xD0, CHR 0x94,
     CHR 0x20, CHR 0xD0, CHR 0xA0, CHR 0xD0, CHR 0xA4]"

section \<open>The outside world\<close>

text \<open>
  What one call of \<^verbatim>\<open>session.get\<close> followed by \<^verbatim>\<open>response.json()\<close> can do: the
  request raises (network failure, timeout), or a response with a status code arrives
  whose body decodes to a value (\<open>Some\<close>) or does not decode (\<open>None\<close>, where
  \<^verbatim>\<open>response.json()\<close> raises).
\<close>

datatype http_result = TransportError | Response int "json option"

text \<open>
  Everything the program reads from outside or hands to a library: the remote service,
  keyed by the parcel identifier; \<^verbatim>\<open>str\<close> of a Python object; the formatted clock when an
  identifier is parsed and when a checkpoint is written (the latter keyed by the number of
  events so far); the formatting of the completion percentage; whether
  \<^verbatim>\<open>pd.DataFrame(x)\<close> and \<^verbatim>\<open>to_excel\<close> succeed; and whether the clock shows no elapsed
  time at the end of the scan (line 221 divides by it).
\<close>

record world =
  remote :: "string \<Rightarrow> http_result"
  py_str :: "json \<Rightarrow> string"
  check_time :: "string \<Rightarrow> string"
  save_time :: "nat \<Rightarrow> string"
  fmt_percent :: "int \<Rightarrow> int \<Rightarrow> string"
  frame_ok :: "json \<Rightarrow> bool"
  excel_ok :: "json \<Rightarrow> bool"
  elapsed_zero :: bool

section \<open>Lookup and parsing\<close>

text \<open>
  \<^verbatim>\<open>fetch_parcel_data\<close> (lines 113 to 141). Python's \<^verbatim>\<open>None\<close> is \<open>JNull\<close>, so a body
  \<^verbatim>\<open>null\<close> with status 200 is returned as \<^verbatim>\<open>None\<close> too.
\<close>

definition fetch_parcel_data :: "world \<Rightarrow> string \<Rightarrow> json" where
  "fetch_parcel_data w parcel_num =
     (case remote w parcel_num of
        TransportError \<Rightarrow> JNull
      | Response status body \<Rightarrow>
          if status = 200 then (case body of None \<Rightarrow> JNull | Some j \<Rightarrow> j)
          else if status = 404 then JNull
          else JNull)"

text \<open>The dictionary literal of lines 152 to 167, evaluated in order.\<close>

fun parcel_record :: "world \<Rightarrow> string \<Rightarrow> json \<Rightarrow> json \<Rightarrow> py_error + json" where
  "parcel_record w parcel_num feature (JObj opts) =
     py_bind (py_get feature ''geometry'' (JObj [])) (\<lambda>geometry.
     py_bind (py_get geometry ''coordinates'' (JStr [])) (\<lambda>coordinates.
       Inr (JObj
         [(K_CAD_NUM, dict_get opts ''cad_num'' (JStr parcel_num)),
          (K_ADDRESS, dict_get opts ''readable_address'' (JStr V_NO_ADDRESS)),
          (K_AREA, (let area = dict_get opts ''area'' JNull
                    in if py_truthy area then area
                       else dict_get opts ''specified_area'' (JStr []))),
          (K_LAND_CATEGORY, dict_get opts ''land_record_category_type'' (JStr [])),
          (K_USAGE, dict_get opts ''permitted_use_established_by_document'' (JStr [])),
          (K_STATUS, dict_get opts ''status'' (JStr [])),
          (K_COST, dict_get opts ''cost_value'' (JStr [])),
          (K_COST_DATE, dict_get opts ''cost_determination_date'' (JStr [])),
          (K_REG_DATE, dict_get opts ''land_record_reg_date'' (JStr [])),
          (K_OWNERSHIP, dict_get opts ''ownership_type'' (JStr [])),
          (K_RIGHT, dict_get opts ''right_type'' (JStr [])),
          (K_COORDINATES, JStr (py_str w coordinates)),
          (K_SOURCE, JStr V_SOURCE),
          (K_CHECKED, JStr (check_time w parcel_num))])))"
| "parcel_record w parcel_num feature _ = Inl AttributeError"

text \<open>
  The \<^verbatim>\<open>for\<close> loop of lines 147 to 168: the first feature of the land-parcel category
  gives the record, \<open>None\<close> if there is none; any exception on the way ends the loop.
\<close>

fun parse_features :: "world \<Rightarrow> string \<Rightarrow> json list \<Rightarrow> py_error + json option" where
  "parse_features w parcel_num [] = Inr None"
| "parse_features w parcel_num (feature # rest) =
     (case py_get feature ''properties'' (JObj []) of
        Inl e \<Rightarrow> Inl e
      | Inr props \<Rightarrow>
          (case py_get props ''categoryName'' JNull of
             Inl e \<Rightarrow> Inl e
           | Inr category \<Rightarrow>
               if category = JStr LAND_CATEGORY then
                 (case py_get props ''options'' (JObj []) of
                    Inl e \<Rightarrow> Inl e
                  | Inr options \<Rightarrow>
                      (case parcel_record w parcel_num feature options of
                         Inl e \<Rightarrow> Inl e
                       | Inr r \<Rightarrow> Inr (Some r)))
               else parse_features w parcel_num rest))"

text \<open>
  \<^verbatim>\<open>parse_parcel_data\<close> (lines 143 to 171): the \<^verbatim>\<open>except\<close> clause turns every
  exception into \<^verbatim>\<open>None\<close>.
\<close>

definition parse_parcel_data :: "world \<Rightarrow> json \<Rightarrow> string \<Rightarrow> json option" where
  "parse_parcel_data w data parcel_num =
     (case py_bind (py_get data ''data'' (JObj [])) (\<lambda>d.
           py_bind (py_get d ''features'' (JArr [])) (\<lambda>features.
           py_bind (py_iter features) (parse_features w parcel_num))) of
        Inl e \<Rightarrow> None
      | Inr r \<Rightarrow> r)"

section \<open>The scanner and the checkpoint store\<close>

text \<open>
  The attributes of \<^verbatim>\<open>LandParcelScanner\<close> (lines 26 to 46). \<open>end_num\<close> is the
  attribute \<^verbatim>\<open>end\<close>. \<open>land_parcels\<close> is a Python object: \<^verbatim>\<open>load_progress\<close> stores
  whatever the checkpoint holds under that key.
\<close>

record scanner =
  kvartal_number :: string
  start :: int
  end_num :: int
  land_parcels :: json
  current_num :: int
  found_count :: int
  not_found_streak :: int
  max_not_found :: int
  folder_name :: string
  temp_file :: string
  result_file :: string

text \<open>
  \<^verbatim>\<open>__init__\<close>. The folder name is made from the clock (line 42) and is given here.
\<close>

definition init_scanner :: "string \<Rightarrow> int \<Rightarrow> int \<Rightarrow> string \<Rightarrow> scanner" where
  "init_scanner kvartal s e folder =
     \<lparr> kvartal_number = kvartal, start = s, end_num = e, land_parcels = JArr [],
       current_num = s, found_count = 0, not_found_streak = 0, max_not_found = 100,
       folder_name = folder,
       temp_file = folder @ ''/temp_'' @ replace_colons kvartal @ ''.json'',
       result_file = folder @ ''/parcels_'' @ replace_colons kvartal @ ''.xlsx'' \<rparr>"

text \<open>
  The disk holds, per path, the document last written there by \<^verbatim>\<open>json.dump\<close> (what
  \<^verbatim>\<open>json.load\<close> gives back); the spreadsheet export is not stored. The event list records
  the observable effects of a run in order: each lookup and each checkpoint written.
\<close>

datatype event = Probe string | Wrote string json

record sys =
  files :: "string \<rightharpoonup> json"
  events :: "event list"

text \<open>
  The dictionary \<^verbatim>\<open>progress_data\<close> of lines 59 to 73. Line 70 divides
  \<^verbatim>\<open>self.current_num - self.start\<close> by \<^verbatim>\<open>self.end - self.start + 1\<close>, two integers:
  the division raises for a zero divisor and for a quotient beyond the floats. The
  product with 100 and the formatting raise nothing.
\<close>

definition progress_data :: "world \<Rightarrow> scanner \<Rightarrow> nat \<Rightarrow> py_error + json" where
  "progress_data w self tick =
     (if end_num self - start self + 1 = 0 then Inl ZeroDivisionError
      else if true_div_overflows (current_num self - start self)
                (end_num self - start self + 1) then Inl OverflowError
      else Inr (JObj
        [(''metadata'', JObj
            [(''kvartal'', JStr (kvartal_number self)),
             (''start_num'', JInt (start self)),
             (''end_num'', JInt (end_num self)),
             (''last_checked'', JInt (current_num self)),
             (''timestamp'', JStr (save_time w tick))]),
         (''stats'', JObj
            [(''total_checked'', JInt (current_num self - start self)),
             (''found_count'', JInt (found_count self)),
             (''completion'', JStr (fmt_percent w (current_num self - start self)
                                      (end_num self - start self + 1)))]),
         (''land_parcels'', land_parcels self)]))"

text \<open>
  The export of lines 78 to 81 and 102 to 105: skipped for a false value, and able to
  raise otherwise.
\<close>

definition export_ok :: "world \<Rightarrow> json \<Rightarrow> bool" where
  "export_ok w lp = (if py_truthy lp then frame_ok w lp \<and> excel_ok w lp else True)"

text \<open>\<^verbatim>\<open>save_progress\<close> (lines 56 to 86): the result and the disk afterwards.\<close>

definition save_progress :: "world \<Rightarrow> scanner \<Rightarrow> sys \<Rightarrow> bool \<times> sys" where
  "save_progress w self y =
     (case progress_data w self (length (events y)) of
        Inl e \<Rightarrow> (False, y)
      | Inr doc \<Rightarrow>
          (export_ok w (land_parcels self),
           y\<lparr> files := (files y)(temp_file self \<mapsto> doc),
              events := events y @ [Wrote (temp_file self) doc] \<rparr>))"

text \<open>\<^verbatim>\<open>data['metadata']['last_checked']\<close> of line 97.\<close>

definition stored_last_checked :: "json \<Rightarrow> py_error + json" where
  "stored_last_checked data =
     py_bind (py_getitem data ''metadata'') (\<lambda>m. py_getitem m ''last_checked'')"

text \<open>
  \<^verbatim>\<open>load_progress\<close> (lines 88 to 111): the result and the scanner afterwards. The three
  assignments of lines 95 to 97 take effect one by one, so an exception leaves the earlier
  ones in place.
\<close>

definition load_progress :: "world \<Rightarrow> scanner \<Rightarrow> sys \<Rightarrow> bool \<times> scanner" where
  "load_progress w self y =
     (case files y (temp_file self) of
        None \<Rightarrow> (False, self)
      | Some data \<Rightarrow>
          (case py_get data ''land_parcels'' (JArr []) of
             Inl e \<Rightarrow> (False, self)
           | Inr lp \<Rightarrow>
               (let s1 = self\<lparr> land_parcels := lp \<rparr> in
                case py_len lp of
                  Inl e \<Rightarrow> (False, s1)
                | Inr n \<Rightarrow>
                    (let s2 = s1\<lparr> found_count := n \<rparr> in
                     case py_bind (stored_last_checked data) py_add1 of
                       Inl e \<Rightarrow> (False, s2)
                     | Inr c \<Rightarrow> (export_ok w lp, s2\<lparr> current_num := c \<rparr>)))))"

text \<open>\<^verbatim>\<open>handle_interrupt\<close> (lines 50 to 54): one checkpoint, then the process exits.\<close>

definition handle_interrupt :: "world \<Rightarrow> scanner \<Rightarrow> sys \<Rightarrow> sys" where
  "handle_interrupt w self y = snd (save_progress w self y)"

section \<open>The scan\<close>

definition parcel_id :: "scanner \<Rightarrow> string" where
  "parcel_id self = kvartal_number self @ '':'' @ str_int (current_num self)"

text \<open>
  Lines 184 to 196: the lookup of the current identifier and what it does to the scanner.
  \<^verbatim>\<open>append\<close> exists on lists only.
\<close>

definition probe :: "world \<Rightarrow> scanner \<Rightarrow> py_error + scanner" where
  "probe w self =
     (let parcel_num = parcel_id self;
          data = fetch_parcel_data w parcel_num
      in if data = JNull then Inr (self\<lparr> not_found_streak := not_found_streak self + 1 \<rparr>)
         else (case parse_parcel_data w data parcel_num of
                 None \<Rightarrow> Inr self
               | Some parcel_info \<Rightarrow>
                   if py_truthy parcel_info then
                     (case land_parcels self of
                        JArr xs \<Rightarrow>
                          Inr (self\<lparr> land_parcels := JArr (xs @ [parcel_info]),
                                     found_count := found_count self + 1,
                                     not_found_streak := 0 \<rparr>)
                      | _ \<Rightarrow> Inl AttributeError)
                   else Inr self))"

text \<open>The condition of line 199.\<close>

definition checkpoint_due :: "scanner \<Rightarrow> bool" where
  "checkpoint_due self =
     (found_count self > 0 \<and> (found_count self mod 10 = 0 \<or> current_num self mod 50 = 0))"

text \<open>
  One pass through the body of the \<^verbatim>\<open>while\<close> loop (lines 184 to 209): an exception
  escapes, or the loop is left by \<^verbatim>\<open>break\<close>, or \<^verbatim>\<open>current_num\<close> advances.
\<close>

datatype step = Raised py_error "scanner \<times> sys" | Stopped "scanner \<times> sys" | Advanced "scanner \<times> sys"

definition scan_body :: "world \<Rightarrow> scanner \<times> sys \<Rightarrow> step" where
  "scan_body w r =
     (let self = fst r;
          y1 = (snd r)\<lparr> events := events (snd r) @ [Probe (parcel_id self)] \<rparr>
      in case probe w self of
           Inl e \<Rightarrow> Raised e (self, y1)
         | Inr s1 \<Rightarrow>
             (let y2 = (if checkpoint_due s1 then snd (save_progress w s1 y1) else y1)
              in if not_found_streak s1 \<ge> max_not_found s1 then Stopped (s1, y2)
                 else Advanced (s1\<lparr> current_num := current_num s1 + 1 \<rparr>, y2)))"

text \<open>The \<^verbatim>\<open>while\<close> loop of line 183.\<close>

function scan_loop :: "world \<Rightarrow> scanner \<times> sys \<Rightarrow> py_error option \<times> scanner \<times> sys" where
  "scan_loop w r =
     (if current_num (fst r) \<le> end_num (fst r) then
        (case scan_body w r of
           Raised e r' \<Rightarrow> (Some e, r')
         | Stopped r' \<Rightarrow> (None, r')
         | Advanced r' \<Rightarrow> scan_loop w r')
      else (None, r))"
  by pat_completeness auto
termination
proof (relation "measure (\<lambda>(w, r). nat (end_num (fst r) + 1 - current_num (fst r)))")
  show "wf (measure (\<lambda>(w, r). nat (end_num (fst r) + 1 - current_num (fst r))))"
    by simp
next
  fix w :: world and r r' :: "scanner \<times> sys"
  assume le: "current_num (fst r) \<le> end_num (fst r)" and adv: "scan_body w r = Advanced r'"
  from adv have "end_num (fst r') = end_num (fst r) \<and> current_num (fst r') = current_num (fst r) + 1"
    by (auto simp: scan_body_def probe_def Let_def
             split: sum.splits if_splits option.splits json.splits)
  with le show "((w, r'), (w, r)) \<in> measure (\<lambda>(w, r). nat (end_num (fst r) + 1 - current_num (fst r)))"
    by simp
qed

text \<open>
  The \<^verbatim>\<open>try\<close> block of \<^verbatim>\<open>scan\<close> (lines 181 to 225): the loop, the final checkpoint, the
  report and the returned value, where \<open>Some lp\<close> stands for the table
  \<^verbatim>\<open>pd.DataFrame(lp)\<close> and \<open>None\<close> for \<^verbatim>\<open>None\<close>. Line 221 divides the integer
  \<^verbatim>\<open>self.current_num - self.start\<close> by the elapsed time, a float: the integer is
  converted first, then a zero divisor is tested. The progress bar of line 182 is not
  modelled.
\<close>

definition scan_try :: "world \<Rightarrow> scanner \<Rightarrow> sys \<Rightarrow> (py_error + json option) \<times> scanner \<times> sys" where
  "scan_try w self y =
     (case scan_loop w (self, y) of
        (Some e, r) \<Rightarrow> (Inl e, r)
      | (None, s1, y1) \<Rightarrow>
          (let y2 = snd (save_progress w s1 y1)
           in if float_overflows (current_num s1 - start s1) then (Inl OverflowError, s1, y2)
              else if elapsed_zero w then (Inl ZeroDivisionError, s1, y2)
              else if py_truthy (land_parcels s1) then
                (if frame_ok w (land_parcels s1) then (Inr (Some (land_parcels s1)), s1, y2)
                 else (Inl PandasError, s1, y2))
              else (Inr None, s1, y2)))"

text \<open>\<^verbatim>\<open>scan\<close> (lines 173 to 230), with the \<^verbatim>\<open>except\<close> clause of lines 227 to 230.\<close>

definition scan :: "world \<Rightarrow> scanner \<Rightarrow> sys \<Rightarrow> json option \<times> scanner \<times> sys" where
  "scan w self y =
     (case scan_try w self y of
        (Inl e, s1, y1) \<Rightarrow> (None, s1, snd (save_progress w s1 y1))
      | (Inr result, r) \<Rightarrow> (result, r))"

section \<open>The command-line flow\<close>

text \<open>\<^verbatim>\<open>validate_input\<close> (lines 232 to 238) on a value that \<^verbatim>\<open>int\<close> accepts.\<close>

definition validate_input :: "int \<Rightarrow> int \<Rightarrow> int \<Rightarrow> bool" where
  "validate_input num min_val max_val = (min_val \<le> num \<and> num \<le> max_val)"

datatype report = NoParcels | ParcelsFound json

text \<open>
  \<^verbatim>\<open>main\<close> from line 254 on, for a block number that passed the format check. \<open>resume\<close>
  says whether the operator answers \<^verbatim>\<open>y\<close> at line 259; \<open>start_in\<close> and \<open>end_in\<close>
  are the bounds entered at lines 271 and 277. The prompts repeat until
  \<^verbatim>\<open>validate_input\<close> accepts, so the flow goes on (\<open>Some\<close>) for accepted bounds only.
\<close>

definition main :: "world \<Rightarrow> string \<Rightarrow> string \<Rightarrow> bool \<Rightarrow> int \<Rightarrow> int \<Rightarrow> sys
                      \<Rightarrow> (report \<times> scanner \<times> sys) option" where
  "main w kvartal folder resume start_in end_in y =
     (let scanner0 = init_scanner kvartal 1 9999 folder;
          (scanner1, y1) =
            (case files y (temp_file scanner0) of
               None \<Rightarrow> (scanner0, y)
             | Some d \<Rightarrow>
                 if resume then (snd (load_progress w scanner0 y), y)
                 else (scanner0, y\<lparr> files := (files y)(temp_file scanner0 := None) \<rparr>))
      in if validate_input start_in 1 99999 \<and> validate_input end_in start_in 99999 then
           (let scanner2 = scanner1\<lparr> start := start_in \<rparr>;
                scanner3 = scanner2\<lparr> end_num := end_in \<rparr>;
                scanner4 = scanner3\<lparr> current_num := start scanner3 \<rparr>
            in case scan w scanner4 y1 of
                 (None, r) \<Rightarrow> Some (NoParcels, r)
               | (Some table, r) \<Rightarrow> Some (ParcelsFound table, r))
         else None)"

section \<open>Notions for stating properties of a run\<close>

text \<open>
  The scanner and disk a pass of the loop body leaves behind; the identifiers looked up
  and the checkpoints written according to an event list; and the loop body repeated
  \<open>n\<close> times without leaving the loop.
\<close>

fun step_state :: "step \<Rightarrow> scanner \<times> sys" where
  "step_state (Raised e r) = r"
| "step_state (Stopped r) = r"
| "step_state (Advanced r) = r"

fun probed :: "event list \<Rightarrow> string list" where
  "probed [] = []"
| "probed (Probe p # es) = p # probed es"
| "probed (Wrote p d # es) = probed es"

fun writes :: "event list \<Rightarrow> json list" where
  "writes [] = []"
| "writes (Probe p # es) = writes es"
| "writes (Wrote p d # es) = d # writes es"

fun iterate_body :: "world \<Rightarrow> nat \<Rightarrow> scanner \<times> sys \<Rightarrow> (scanner \<times> sys) option" where
  "iterate_body w 0 r = Some r"
| "iterate_body w (Suc n) r =
     (if current_num (fst r) \<le> end_num (fst r) then
        (case scan_body w r of Advanced r' \<Rightarrow> iterate_body w n r' | _ \<Rightarrow> None)
      else None)"

text \<open>
  The lookup gives \<^verbatim>\<open>None\<close> for the \<open>n\<close> identifiers of block \<open>kvartal\<close> from
  number \<open>k\<close> on.
\<close>

fun misses_from :: "world \<Rightarrow> string \<Rightarrow> int \<Rightarrow> nat \<Rightarrow> bool" where
  "misses_from w kvartal k 0 = True"
| "misses_from w kvartal k (Suc n) =
     (fetch_parcel_data w (kvartal @ '':'' @ str_int k) = JNull \<and> misses_from w kvartal (k + 1) n)"

text \<open>
  The ways a lookup call fails by itself (lines 135 to 141): the request raises, the
  status is neither 200 nor 404, or the body of a 200 response does not decode.
\<close>

definition lookup_failed :: "http_result \<Rightarrow> bool" where
  "lookup_failed h =
     (case h of
        TransportError \<Rightarrow> True
      | Response status body \<Rightarrow> (status \<noteq> 200 \<and> status \<noteq> 404) \<or> (status = 200 \<and> body = None))"

section \<open>Concrete runs\<close>

text \<open>
  A stub of the outside world: the remote answers 200 with the given payload for the
  identifiers listed in \<open>found\<close> and 404 for every other one; the library calls succeed.
\<close>

definition stub_world :: "(string \<times> json) list \<Rightarrow> world" where
  "stub_world found =
     \<lparr> remote = (\<lambda>parcel_num. case map_of found parcel_num of
                                  None \<Rightarrow> Response 404 None
                                | Some payload \<Rightarrow> Response 200 (Some payload)),
       py_str = (\<lambda>j. ''''),
       check_time = (\<lambda>parcel_num. ''2025-01-01 00:00''),
       save_time = (\<lambda>tick. ''2025-01-01T00:00:00''),
       fmt_percent = (\<lambda>n d. ''0.00%''),
       frame_ok = (\<lambda>j. True),
       excel_ok = (\<lambda>j. True),
       elapsed_zero = False \<rparr>"

text \<open>A payload with one feature of the land-parcel category.\<close>

definition parcel_payload :: "string \<Rightarrow> json" where
  "parcel_payload cad_num =
     JObj [(''data'', JObj [(''features'', JArr
       [JObj [(''properties'', JObj
          [(''categoryName'', JStr LAND_CATEGORY),
           (''options'', JObj [(''cad_num'', JStr cad_num)])])]])])]"

text \<open>A payload of the remote's shape with no feature at all.\<close>

definition empty_payload :: json where
  "empty_payload = JObj [(''data'', JObj [(''features'', JArr [])])]"

definition empty_sys :: sys where
  "empty_sys = \<lparr> files = Map.empty, events = [] \<rparr>"

text \<open>The block of the end-to-end example, where only parcel 3 is registered.\<close>

definition example_world :: world where
  "example_world = stub_world [(''77:01:0001001:3'', parcel_payload ''77:01:0001001:3'')]"

definition example_scanner :: scanner where
  "example_scanner = init_scanner ''77:01:0001001'' 1 5 ''results''"



text \<open>A scanner for the single identifier 50, and a remote with an empty payload for parcel 1.\<close>

definition edge_scanner :: scanner where
  "edge_scanner = init_scanner ''77:01:0001001'' 50 50 ''results''"

definition empty_world :: world where
  "empty_world = stub_world [(''77:01:0001001:1'', empty_payload)]"

text \<open>
  Further inputs: a remote where parcel 50 is registered; a scanner for the range 1 to
  150; a remote whose every request raises; a world where \<^verbatim>\<open>pd.DataFrame\<close> raises; a
  scanner in the middle of a run; and a disk whose checkpoint has one record under
  \<^verbatim>\<open>land_parcels\<close> while its \<^verbatim>\<open>stats\<close> say seven.
\<close>

definition fifty_world :: world where
  "fifty_world = stub_world [(''77:01:0001001:50'', parcel_payload ''77:01:0001001:50'')]"

definition long_scanner :: scanner where
  "long_scanner = init_scanner ''77:01:0001001'' 1 150 ''results''"

definition failing_world :: world where
  "failing_world = (stub_world [])\<lparr> remote := (\<lambda>parcel_num. TransportError) \<rparr>"

definition no_frame_world :: world where
  "no_frame_world = example_world\<lparr> frame_ok := (\<lambda>j. False) \<rparr>"

definition midway_scanner :: scanner where
  "midway_scanner =
     example_scanner\<lparr> land_parcels := JArr [JObj [(K_CAD_NUM, JStr ''77:01:0001001:2'')]],
                      found_count := 1, current_num := 3 \<rparr>"

definition mismatched_sys :: sys where
  "mismatched_sys =
     \<lparr> files = [temp_file example_scanner \<mapsto>
         JObj [(''metadata'', JObj [(''last_checked'', JInt 3)]),
               (''stats'', JObj [(''found_count'', JInt 7)]),
               (''land_parcels'', JArr [JObj [(K_CAD_NUM, JStr ''77:01:0001001:2'')]])]],
       events = [] \<rparr>"

text \<open>A remote that answers every identifier with the empty payload.\<close>

definition vacant_world :: world where
  "vacant_world = (stub_world [])\<lparr> remote := (\<lambda>parcel_num. Response 200 (Some empty_payload)) \<rparr>"

section \<open>Properties of the model\<close>

declare scan_loop.simps [simp del]

declare str_nat.simps [simp del]

subsection \<open>One lookup\<close>

text \<open>
  A lookup changes nothing but the records, the counter and the streak; it has exactly three
  outcomes that do not raise: the call gives \<^verbatim>\<open>None\<close> and the streak grows, the payload has
  no land-parcel feature and the scanner is left as it is, or a record is appended and the
  streak is reset. The count of records stays equal to their length.
\<close>

lemma probe_config:
  "probe w s = Inr s1 \<Longrightarrow>
     kvartal_number s1 = kvartal_number s \<and> start s1 = start s \<and> end_num s1 = end_num s \<and>
     current_num s1 = current_num s \<and> max_not_found s1 = max_not_found s \<and>
     folder_name s1 = folder_name s \<and> temp_file s1 = temp_file s \<and> result_file s1 = result_file s"
  by (auto simp: probe_def Let_def split: if_splits option.splits json.splits)

lemma probe_miss:
  "fetch_parcel_data w (parcel_id s) = JNull \<Longrightarrow>
     probe w s = Inr (s\<lparr> not_found_streak := not_found_streak s + 1 \<rparr>)"
  by (simp add: probe_def Let_def)

lemma probe_no_feature:
  "fetch_parcel_data w (parcel_id s) \<noteq> JNull \<Longrightarrow>
   parse_parcel_data w (fetch_parcel_data w (parcel_id s)) (parcel_id s) = None \<Longrightarrow>
   probe w s = Inr s"
  by (simp add: probe_def Let_def)

lemma probe_found:
  "fetch_parcel_data w (parcel_id s) \<noteq> JNull \<Longrightarrow>
   parse_parcel_data w (fetch_parcel_data w (parcel_id s)) (parcel_id s) = Some info \<Longrightarrow>
   py_truthy info \<Longrightarrow> land_parcels s = JArr xs \<Longrightarrow>
   probe w s = Inr (s\<lparr> land_parcels := JArr (xs @ [info]),
                        found_count := found_count s + 1, not_found_streak := 0 \<rparr>)"
  by (simp add: probe_def Let_def)

lemma probe_count:
  "probe w s = Inr s1 \<Longrightarrow> py_len (land_parcels s) = Inr (found_count s) \<Longrightarrow>
     py_len (land_parcels s1) = Inr (found_count s1)"
  by (auto simp: probe_def Let_def split: if_splits option.splits json.splits)

lemma fetch_failed: "lookup_failed (remote w p) \<Longrightarrow> fetch_parcel_data w p = JNull"
  by (auto simp: lookup_failed_def fetch_parcel_data_def split: http_result.splits)

subsection \<open>One pass through the loop body\<close>

text \<open>
  The checkpoint document can be made whenever \<open>start \<le> end\<close> and
  \<open>start \<le> current_num \<le> end + 1\<close>: the quotient of line 70 then lies between 0 and 1.
  It holds the records and the current number of the scanner it is made from. A pass of
  the body looks up exactly the current identifier, and what it does to the scanner does
  not depend on the disk or on the events so far.
\<close>

lemma scan_body_after_probe:
  "probe w s = Inr s1 \<Longrightarrow>
   scan_body w (s, y) =
     (let y1 = y\<lparr> events := events y @ [Probe (parcel_id s)] \<rparr>;
          y2 = (if checkpoint_due s1 then snd (save_progress w s1 y1) else y1)
      in if max_not_found s1 \<le> not_found_streak s1 then Stopped (s1, y2)
         else Advanced (s1\<lparr> current_num := current_num s1 + 1 \<rparr>, y2))"
  by (simp add: scan_body_def Let_def)

lemma writes_append: "writes (es @ es') = writes es @ writes es'"
  by (induction es rule: writes.induct) simp_all

lemma probed_append: "probed (es @ es') = probed es @ probed es'"
  by (induction es rule: probed.induct) simp_all

lemma save_progress_writes:
  "progress_data w s (length (events y)) = Inr doc \<Longrightarrow>
   snd (save_progress w s y) =
     y\<lparr> files := (files y)(temp_file s \<mapsto> doc), events := events y @ [Wrote (temp_file s) doc] \<rparr>"
  by (simp add: save_progress_def)

lemma save_progress_config_free:
  "files (snd (save_progress w s y)) (temp_file s) =
     (case progress_data w s (length (events y)) of Inl e \<Rightarrow> files y (temp_file s) | Inr doc \<Rightarrow> Some doc)"
  by (simp add: save_progress_def split: sum.splits)

lemma FLOAT_LIMIT_ge: "2 \<le> FLOAT_LIMIT"
  by (simp add: FLOAT_LIMIT_def)

lemma progress_data_ok:
  assumes "start s \<le> end_num s" and "start s \<le> current_num s"
      and "current_num s \<le> end_num s + 1"
  shows "\<exists>doc. progress_data w s t = Inr doc"
proof -
  let ?d = "end_num s - start s + 1"
  let ?n = "current_num s - start s"
  from assms have d: "1 \<le> ?d" and n: "0 \<le> ?n" "?n \<le> ?d" by simp_all
  have "2 * ?d \<le> FLOAT_LIMIT * ?d"
    using FLOAT_LIMIT_ge d by (intro mult_right_mono) simp_all
  with d n have "\<not> true_div_overflows ?n ?d"
    by (simp add: true_div_overflows_def)
  with d show ?thesis by (simp add: progress_data_def)
qed

lemma progress_data_fields:
  "progress_data w s t = Inr doc \<Longrightarrow>
     py_get doc ''land_parcels'' (JArr []) = Inr (land_parcels s) \<and>
     stored_last_checked doc = Inr (JInt (current_num s))"
  by (auto simp: progress_data_def stored_last_checked_def py_bind_def dict_get_def split: if_splits)

lemma probed_save_progress:
  "probed (events (snd (save_progress w s y))) = probed (events y)"
  by (simp add: save_progress_def probed_append split: sum.splits)

lemma scan_body_probed:
  "probed (events (snd (step_state (scan_body w (s, y))))) = probed (events y) @ [parcel_id s]"
  by (simp add: scan_body_def Let_def probed_append probed_save_progress split: sum.splits)

lemma scan_body_miss:
  assumes "fetch_parcel_data w (parcel_id s) = JNull"
  shows "\<exists>y'. scan_body w (s, y) =
           (if max_not_found s \<le> not_found_streak s + 1
            then Stopped (s\<lparr> not_found_streak := not_found_streak s + 1 \<rparr>, y')
            else Advanced (s\<lparr> not_found_streak := not_found_streak s + 1,
                              current_num := current_num s + 1 \<rparr>, y')) \<and>
           probed (events y') = probed (events y) @ [parcel_id s]"
proof -
  let ?s1 = "s\<lparr> not_found_streak := not_found_streak s + 1 \<rparr>"
  let ?y1 = "y\<lparr> events := events y @ [Probe (parcel_id s)] \<rparr>"
  let ?y2 = "if checkpoint_due ?s1 then snd (save_progress w ?s1 ?y1) else ?y1"
  have p: "probed (events ?y2) = probed (events y) @ [parcel_id s]"
    by (simp add: probed_save_progress probed_append)
  have b: "scan_body w (s, y) =
           (if max_not_found s \<le> not_found_streak s + 1
            then Stopped (?s1, ?y2)
            else Advanced (s\<lparr> not_found_streak := not_found_streak s + 1,
                              current_num := current_num s + 1 \<rparr>, ?y2))"
    by (simp add: scan_body_after_probe [OF probe_miss [OF assms]] Let_def)
  from b p show ?thesis by blast
qed

lemma scan_body_advanced:
  assumes "scan_body w (s, y) = Advanced (s', y')"
  shows "kvartal_number s' = kvartal_number s \<and> start s' = start s \<and> end_num s' = end_num s \<and>
         max_not_found s' = max_not_found s \<and> folder_name s' = folder_name s \<and>
         temp_file s' = temp_file s \<and> result_file s' = result_file s \<and>
         current_num s' = current_num s + 1 \<and>
         (py_len (land_parcels s) = Inr (found_count s) \<longrightarrow>
            py_len (land_parcels s') = Inr (found_count s'))"
proof (cases "probe w s")
  case (Inl e)
  with assms show ?thesis by (simp add: scan_body_def Let_def)
next
  case (Inr s1)
  from assms have "s' = s1\<lparr> current_num := current_num s1 + 1 \<rparr>"
    by (simp add: scan_body_after_probe [OF Inr] Let_def split: if_splits)
  with probe_config [OF Inr] probe_count [OF Inr] show ?thesis by simp
qed

lemma scan_body_kept:
  assumes "scan_body w (s, y) = Stopped (s', y') \<or> scan_body w (s, y) = Raised e (s', y')"
  shows "start s' = start s \<and> end_num s' = end_num s \<and> temp_file s' = temp_file s \<and>
         current_num s' = current_num s"
proof (cases "probe w s")
  case (Inl e)
  with assms show ?thesis by (auto simp: scan_body_def Let_def)
next
  case (Inr s1)
  from assms have "s' = s1"
    by (auto simp: scan_body_after_probe [OF Inr] Let_def split: if_splits)
  with probe_config [OF Inr] show ?thesis by simp
qed


subsection \<open>The loop\<close>

text \<open>
  The loop unfolds along its body; the passes made so far can be split off; the range and
  the checkpoint path are never changed, and \<open>start \<le> current_num \<le> end + 1\<close> is kept;
  and a run of lookups that give \<^verbatim>\<open>None\<close>, long
  enough to bring the streak to the limit, ends the loop at the last of them.
\<close>

lemma scan_loop_advance:
  "current_num (fst r) \<le> end_num (fst r) \<Longrightarrow> scan_body w r = Advanced r' \<Longrightarrow>
     scan_loop w r = scan_loop w r'"
  by (subst scan_loop.simps) simp

lemma scan_loop_stop:
  "current_num (fst r) \<le> end_num (fst r) \<Longrightarrow> scan_body w r = Stopped r' \<Longrightarrow>
     scan_loop w r = (None, r')"
  by (subst scan_loop.simps) simp

lemma scan_loop_raise:
  "current_num (fst r) \<le> end_num (fst r) \<Longrightarrow> scan_body w r = Raised e r' \<Longrightarrow>
     scan_loop w r = (Some e, r')"
  by (subst scan_loop.simps) simp

lemma scan_loop_exhausted:
  "\<not> current_num (fst r) \<le> end_num (fst r) \<Longrightarrow> scan_loop w r = (None, r)"
  by (subst scan_loop.simps) simp

lemma iterate_body_scan_loop:
  "iterate_body w n r = Some r' \<Longrightarrow> scan_loop w r = scan_loop w r'"
proof (induction n arbitrary: r)
  case 0
  then show ?case by simp
next
  case (Suc n)
  then show ?case
    by (auto simp: scan_loop_advance split: if_splits step.splits)
qed


lemma scan_loop_config:
  "start (fst (snd (scan_loop w r))) = start (fst r) \<and>
   end_num (fst (snd (scan_loop w r))) = end_num (fst r) \<and>
   temp_file (fst (snd (scan_loop w r))) = temp_file (fst r)"
proof (induction w r rule: scan_loop.induct)
  case (1 w r)
  show ?case
  proof (cases "current_num (fst r) \<le> end_num (fst r)")
    case False
    then show ?thesis by (simp add: scan_loop_exhausted)
  next
    case True
    show ?thesis
    proof (cases "scan_body w r")
      case (Raised e r')
      with scan_body_kept [of w "fst r" "snd r" "fst r'" "snd r'" e] scan_loop_raise [OF True Raised]
      show ?thesis by simp
    next
      case (Stopped r')
      with scan_body_kept [of w "fst r" "snd r" "fst r'" "snd r'"] scan_loop_stop [OF True Stopped]
      show ?thesis by simp
    next
      case (Advanced r')
      with scan_body_advanced [of w "fst r" "snd r" "fst r'" "snd r'"] "1.IH" [OF True Advanced]
        scan_loop_advance [OF True Advanced]
      show ?thesis by simp
    qed
  qed
qed

lemma scan_loop_bounds:
  "start (fst r) \<le> current_num (fst r) \<Longrightarrow> current_num (fst r) \<le> end_num (fst r) + 1 \<Longrightarrow>
   start (fst (snd (scan_loop w r))) \<le> current_num (fst (snd (scan_loop w r))) \<and>
   current_num (fst (snd (scan_loop w r))) \<le> end_num (fst (snd (scan_loop w r))) + 1"
proof (induction w r rule: scan_loop.induct)
  case (1 w r)
  show ?case
  proof (cases "current_num (fst r) \<le> end_num (fst r)")
    case False
    with "1.prems" show ?thesis by (simp add: scan_loop_exhausted)
  next
    case True
    show ?thesis
    proof (cases "scan_body w r")
      case (Raised e r')
      with scan_body_kept [of w "fst r" "snd r" "fst r'" "snd r'" e] scan_loop_raise [OF True Raised]
        "1.prems"
      show ?thesis by simp
    next
      case (Stopped r')
      with scan_body_kept [of w "fst r" "snd r" "fst r'" "snd r'"] scan_loop_stop [OF True Stopped]
        "1.prems"
      show ?thesis by simp
    next
      case (Advanced r')
      from scan_body_advanced [of w "fst r" "snd r" "fst r'" "snd r'"] Advanced
      have c: "start (fst r') = start (fst r)" "end_num (fst r') = end_num (fst r)"
        "current_num (fst r') = current_num (fst r) + 1" by simp_all
      with True "1.prems" have "start (fst r') \<le> current_num (fst r')"
        and "current_num (fst r') \<le> end_num (fst r') + 1" by simp_all
      from "1.IH" [OF True Advanced this] scan_loop_advance [OF True Advanced]
      show ?thesis by simp
    qed
  qed
qed


lemma misses_run:
  "misses_from w (kvartal_number s) (current_num s) n \<Longrightarrow> 0 < n \<Longrightarrow>
   not_found_streak s + int n = max_not_found s \<Longrightarrow>
   current_num s + int n - 1 \<le> end_num s \<Longrightarrow>
   \<exists>y'. scan_loop w (s, y) =
           (None, s\<lparr> not_found_streak := max_not_found s,
                      current_num := current_num s + int n - 1 \<rparr>, y') \<and>
        probed (events y') =
          probed (events y) @
          map (\<lambda>i. kvartal_number s @ '':'' @ str_int i) [current_num s .. current_num s + int n - 1]"
proof (induction n arbitrary: s y)
  case 0
  then show ?case by simp
next
  case (Suc n)
  from Suc.prems(1) have miss: "fetch_parcel_data w (parcel_id s) = JNull"
    and rest: "misses_from w (kvartal_number s) (current_num s + 1) n"
    by (simp_all add: parcel_id_def)
  from Suc.prems(4) have le: "current_num (fst (s, y)) \<le> end_num (fst (s, y))" by simp
  show ?case
  proof (cases n)
    case 0
    with Suc.prems(3) have lim: "max_not_found s \<le> not_found_streak s + 1" by simp
    from scan_body_miss [OF miss, of y] lim
    obtain y' where b: "scan_body w (s, y) = Stopped (s\<lparr> not_found_streak := not_found_streak s + 1 \<rparr>, y')"
      and p: "probed (events y') = probed (events y) @ [parcel_id s]" by auto
    have eq: "s\<lparr> not_found_streak := not_found_streak s + 1 \<rparr> =
              s\<lparr> not_found_streak := max_not_found s, current_num := current_num s + int (Suc n) - 1 \<rparr>"
      using 0 Suc.prems(3) by simp
    show ?thesis
      using scan_loop_stop [OF le b] p 0 eq by (simp add: parcel_id_def)
  next
    case (Suc m)
    with Suc.prems(3) have lim: "\<not> max_not_found s \<le> not_found_streak s + 1" by simp
    let ?s1 = "s\<lparr> not_found_streak := not_found_streak s + 1, current_num := current_num s + 1 \<rparr>"
    from scan_body_miss [OF miss, of y] lim
    obtain y1 where b: "scan_body w (s, y) = Advanced (?s1, y1)"
      and p: "probed (events y1) = probed (events y) @ [parcel_id s]" by auto
    have "\<exists>y'. scan_loop w (?s1, y1) =
           (None, ?s1\<lparr> not_found_streak := max_not_found ?s1,
                        current_num := current_num ?s1 + int n - 1 \<rparr>, y') \<and>
        probed (events y') =
          probed (events y1) @
          map (\<lambda>i. kvartal_number ?s1 @ '':'' @ str_int i) [current_num ?s1 .. current_num ?s1 + int n - 1]"
      using rest Suc Suc.prems(3,4) by (intro Suc.IH) simp_all
    then obtain y' where l: "scan_loop w (?s1, y1) =
           (None, ?s1\<lparr> not_found_streak := max_not_found ?s1,
                        current_num := current_num ?s1 + int n - 1 \<rparr>, y')"
      and p': "probed (events y') =
          probed (events y1) @
          map (\<lambda>i. kvartal_number ?s1 @ '':'' @ str_int i) [current_num ?s1 .. current_num ?s1 + int n - 1]"
      by blast
    have up: "[current_num s .. current_num s + int (Suc n) - 1] =
              current_num s # [current_num s + 1 .. current_num s + 1 + int n - 1]"
      by (subst upto_rec1) simp_all
    show ?thesis
      using scan_loop_advance [OF le b] l p p' up by (simp add: parcel_id_def)
  qed
qed

subsection \<open>The whole scan\<close>

text \<open>
  After the loop \<^verbatim>\<open>scan\<close> only writes checkpoints: the scanner and the identifiers looked
  up are those of the loop, and for a scanner with \<open>start \<le> end\<close> and
  \<open>start \<le> current_num \<le> end + 1\<close>, bounds the loop keeps, the last event of the scan
  is a checkpoint of the final scanner.
\<close>

lemma scan_result_cases:
  "fst (scan w s y) = (case fst (scan_try w s y) of Inl e \<Rightarrow> None | Inr res \<Rightarrow> res)"
  by (simp add: scan_def split: prod.splits sum.splits)

lemma scan_scanner_eq: "fst (snd (scan w s y)) = fst (snd (scan_try w s y))"
  by (simp add: scan_def split: prod.splits sum.splits)

lemma scan_try_result:
  "fst (scan_try w s y) = Inr res \<Longrightarrow>
     res = (if py_truthy (land_parcels (fst (snd (scan_try w s y))))
            then Some (land_parcels (fst (snd (scan_try w s y)))) else None)"
  by (auto simp: scan_try_def Let_def split: prod.splits option.splits if_splits)

lemma scan_scanner: "fst (snd (scan w s y)) = fst (snd (scan_loop w (s, y)))"
  by (simp add: scan_def scan_try_def Let_def split: prod.splits option.splits sum.splits)

lemma scan_probed:
  "probed (events (snd (snd (scan w s y)))) = probed (events (snd (snd (scan_loop w (s, y)))))"
  by (simp add: scan_def scan_try_def Let_def probed_save_progress
           split: prod.splits option.splits sum.splits)

lemma scan_final_write:
  assumes "start s \<le> end_num s" and "start s \<le> current_num s"
      and "current_num s \<le> end_num s + 1"
  shows "\<exists>es doc t. events (snd (snd (scan w s y))) = es @ [Wrote (temp_file s) doc] \<and>
                    progress_data w (fst (snd (scan w s y))) t = Inr doc"
proof -
  obtain e s1 y1 where l: "scan_loop w (s, y) = (e, s1, y1)" by (metis prod_cases3)
  from scan_loop_config [of w "(s, y)"] l
  have cfg: "start s1 = start s" "end_num s1 = end_num s" "temp_file s1 = temp_file s" by simp_all
  from scan_loop_bounds [of "(s, y)" w] l assms(2,3)
  have bnd: "start s1 \<le> current_num s1" "current_num s1 \<le> end_num s1 + 1" by simp_all
  from cfg assms(1) have rng: "start s1 \<le> end_num s1" by simp
  have sv: "\<And>z :: sys. \<exists>doc. progress_data w s1 (length (events z)) = Inr doc \<and>
                 events (snd (save_progress w s1 z)) = events z @ [Wrote (temp_file s) doc]"
  proof -
    fix z :: sys
    from progress_data_ok [OF rng bnd]
    obtain doc where "progress_data w s1 (length (events z)) = Inr doc"
      by blast
    then show "\<exists>doc. progress_data w s1 (length (events z)) = Inr doc \<and>
                 events (snd (save_progress w s1 z)) = events z @ [Wrote (temp_file s) doc]"
      by (simp add: save_progress_def cfg)
  qed
  have "\<exists>z. fst (snd (scan w s y)) = s1 \<and> snd (snd (scan w s y)) = snd (save_progress w s1 z)"
    using l by (auto simp: scan_def scan_try_def Let_def split: option.splits)
  then obtain z where a: "fst (snd (scan w s y)) = s1"
    and b: "snd (snd (scan w s y)) = snd (save_progress w s1 z)" by blast
  from sv [of z] a b show ?thesis by auto
qed

subsection \<open>Two runs\<close>

text \<open>
  A block that answers each of 150 identifiers with a payload without features is scanned
  to the end of the range, with the streak at 0 throughout. And \<^verbatim>\<open>main\<close>, resuming from a
  checkpoint taken after identifiers 1 to 3 of the example block, loads the resume point 4
  but then sets \<^verbatim>\<open>current_num\<close> back to the start of the range (line 282): identifiers 1
  to 3 are looked up again and parcel 3 is recorded twice.
\<close>

lemma vacant_block_never_stops:
  "current_num (fst (snd (scan vacant_world long_scanner empty_sys))) = 151 \<and>
   not_found_streak (fst (snd (scan vacant_world long_scanner empty_sys))) = 0"
  by code_simp

lemma main_rescans_from_start:
  "case iterate_body example_world 3 (example_scanner, empty_sys) of
     Some (s, y) \<Rightarrow>
       current_num (snd (load_progress example_world example_scanner
                      (handle_interrupt example_world (s\<lparr> current_num := 3 \<rparr>) y))) = 4 \<and>
       (case main example_world ''77:01:0001001'' ''results'' True 1 5
               (handle_interrupt example_world (s\<lparr> current_num := 3 \<rparr>) y) of
          Some (rep, s', y') \<Rightarrow>
            py_len (land_parcels s') = Inr 2 \<and>
            probed (events y') =
              [''77:01:0001001:1'', ''77:01:0001001:2'', ''77:01:0001001:3'',
               ''77:01:0001001:1'', ''77:01:0001001:2'', ''77:01:0001001:3'',
               ''77:01:0001001:4'', ''77:01:0001001:5'']
        | None \<Rightarrow> False)
   | None \<Rightarrow> False"
  by code_simp

subsection \<open>Beyond the floats\<close>

text \<open>
  With \<^verbatim>\<open>current_num\<close> at \<open>10 ^ 400\<close> in the range 1 to 5, line 70 raises
  \<^verbatim>\<open>OverflowError\<close>: \<^verbatim>\<open>save_progress\<close> returns \<^verbatim>\<open>False\<close> and writes nothing, and
  \<^verbatim>\<open>scan\<close> returns \<^verbatim>\<open>None\<close> through the \<^verbatim>\<open>except\<close> clause, line 221 raising the same.
  At \<open>- (10 ^ 400)\<close> with ten records a checkpoint is due but cannot be made.
\<close>

lemma save_progress_beyond_floats:
  "fst (save_progress example_world (example_scanner\<lparr> current_num := 10 ^ 400 \<rparr>) empty_sys) = False \<and>
   files (snd (save_progress example_world (example_scanner\<lparr> current_num := 10 ^ 400 \<rparr>) empty_sys))
     (temp_file example_scanner) = None"
  by code_simp

lemma scan_beyond_floats:
  "fst (scan_try example_world (example_scanner\<lparr> current_num := 10 ^ 400 \<rparr>) empty_sys) =
     Inl OverflowError \<and>
   fst (scan example_world (example_scanner\<lparr> current_num := 10 ^ 400 \<rparr>) empty_sys) = None"
  by code_simp

lemma checkpoint_due_below_floats:
  "checkpoint_due (example_scanner\<lparr> current_num := - (10 ^ 400), found_count := 10 \<rparr>) \<and>
   progress_data example_world
     (example_scanner\<lparr> current_num := - (10 ^ 400), found_count := 10 \<rparr>) 0 = Inl OverflowError"
  by code_simp

section \<open>The statements of the specification\<close>

subsection \<open>C1: resuming from a checkpoint\<close>




subsection \<open>C2: the end-to-end example\<close>

text \<open>
  Claim C2, evaluated on the code: block \<^verbatim>\<open>77:01:0001001\<close>, range 1 to 5, only parcel 3
  registered. The scan ends with one record, whose cadastral number is
  \<^verbatim>\<open>77:01:0001001:3\<close>, and \<^verbatim>\<open>found_count = 1\<close>; but the final checkpoint has
  \<^verbatim>\<open>last_checked = 6\<close>, not 5, because \<^verbatim>\<open>current_num\<close> was advanced past the end of the
  range (line 208) before the checkpoint of line 212.
\<close>

theorem example_run_final_checkpoint:
  "case scan example_world example_scanner empty_sys of
     (result, s, y) \<Rightarrow>
       py_len (land_parcels s) = Inr 1 \<and>
       (case land_parcels s of
          JArr [r] \<Rightarrow> py_get r K_CAD_NUM JNull = Inr (JStr ''77:01:0001001:3'')
        | _ \<Rightarrow> False) \<and>
       found_count s = 1 \<and>
       (case files y (temp_file s) of
          Some doc \<Rightarrow> stored_last_checked doc = Inr (JInt 6)
        | None \<Rightarrow> False)"
  by code_simp

subsection \<open>C3: the streak of misses\<close>

text \<open>
  Claim C3, evaluated on the code: the remote answers identifier 1 with status 200 and a
  payload whose list of features is empty. Parsing finds no land parcel, and the lookup
  leaves the scanner as it was: the streak stays at 0 instead of growing to 1.
\<close>

theorem empty_payload_keeps_streak:
  "fetch_parcel_data empty_world (parcel_id example_scanner) = empty_payload \<and>
   parse_parcel_data empty_world empty_payload (parcel_id example_scanner) = None \<and>
   not_found_streak example_scanner = 0 \<and>
   probe empty_world example_scanner = Inr example_scanner"
  by code_simp

subsection \<open>C4: when a checkpoint is written\<close>

text \<open>
  Claim C4, as amended. For a scanner with \<open>start \<le> end\<close> and
  \<open>start \<le> current_num \<le> end + 1\<close> (the invariants of the scan state), a pass of the
  loop body that does not raise writes one checkpoint if, after the lookup, \<^verbatim>\<open>found_count > 0\<close> and
  (\<^verbatim>\<open>found_count % 10 == 0\<close> or \<^verbatim>\<open>current_num % 50 == 0\<close>), and none otherwise; and the
  last event of the scan is a checkpoint of the final scanner. Within these bounds the
  division of line 70 neither divides by zero nor leaves the floats.
\<close>

theorem checkpoint_trigger_exact:
  assumes "start s \<le> end_num s" and "start s \<le> current_num s"
      and "current_num s \<le> end_num s + 1" and "probe w s = Inr s1"
  shows "length (writes (events (snd (step_state (scan_body w (s, y)))))) =
           length (writes (events y)) +
           (if found_count s1 > 0 \<and> (found_count s1 mod 10 = 0 \<or> current_num s1 mod 50 = 0)
            then 1 else 0) \<and>
         (\<exists>es doc t. events (snd (snd (scan w s y))) = es @ [Wrote (temp_file s) doc] \<and>
                     progress_data w (fst (snd (scan w s y))) t = Inr doc)"
proof -
  from assms(1,2,3) have rng0: "start s \<le> end_num s" "start s \<le> current_num s"
      "current_num s \<le> end_num s + 1" by simp_all
  with probe_config [OF assms(4)]
  have rng: "start s1 \<le> end_num s1" "start s1 \<le> current_num s1"
      "current_num s1 \<le> end_num s1 + 1" by simp_all
  let ?y1 = "y\<lparr> events := events y @ [Probe (parcel_id s)] \<rparr>"
  from progress_data_ok [OF rng]
  obtain doc where doc: "progress_data w s1 (length (events ?y1)) = Inr doc" by blast
  have "length (writes (events (snd (step_state (scan_body w (s, y)))))) =
           length (writes (events y)) +
           (if found_count s1 > 0 \<and> (found_count s1 mod 10 = 0 \<or> current_num s1 mod 50 = 0)
            then 1 else 0)"
    by (simp add: scan_body_after_probe [OF assms(4)] Let_def checkpoint_due_def
          save_progress_writes [OF doc] writes_append)
  with scan_final_write [OF rng0] show ?thesis by blast
qed

text \<open>
  Witness for C4: parcel 50 is found at identifier 50, so the pass writes a checkpoint, and
  the scan ends with one.
\<close>

theorem checkpoint_trigger_exact_witness:
  "start edge_scanner \<le> end_num edge_scanner \<and>
   start edge_scanner \<le> current_num edge_scanner \<and>
   current_num edge_scanner \<le> end_num edge_scanner + 1 \<and>
   (case probe fifty_world edge_scanner of
      Inr s1 \<Rightarrow>
        found_count s1 > 0 \<and> current_num s1 mod 50 = 0 \<and>
        length (writes (events (snd (step_state (scan_body fifty_world (edge_scanner, empty_sys)))))) = 1
    | Inl e \<Rightarrow> False) \<and>
   (\<exists>es doc t. events (snd (snd (scan fifty_world edge_scanner empty_sys))) =
                  es @ [Wrote (temp_file edge_scanner) doc] \<and>
               progress_data fifty_world (fst (snd (scan fifty_world edge_scanner empty_sys))) t = Inr doc)"
proof -
  have "case probe fifty_world edge_scanner of
          Inr s1 \<Rightarrow> found_count s1 > 0 \<and> current_num s1 mod 50 = 0
        | Inl e \<Rightarrow> False"
    by code_simp
  then obtain s1 where p: "probe fifty_world edge_scanner = Inr s1"
    and f: "found_count s1 > 0" and c: "current_num s1 mod 50 = 0"
    by (auto split: sum.splits)
  have r: "start edge_scanner \<le> end_num edge_scanner"
      "start edge_scanner \<le> current_num edge_scanner"
      "current_num edge_scanner \<le> end_num edge_scanner + 1"
    by (simp_all add: edge_scanner_def init_scanner_def)
  from checkpoint_trigger_exact [OF r p, of empty_sys] p f c r
  show ?thesis by (simp add: empty_sys_def)
qed

text \<open>
  Counterexample to C4 as stated: at identifier 50 with nothing found, the condition
  \<^verbatim>\<open>(found_count % 10 == 0 and found_count > 0) or current % 50 == 0\<close> holds, yet the pass
  writes no checkpoint, since line 199 asks for \<^verbatim>\<open>found_count > 0\<close> first.
\<close>

theorem checkpoint_trigger_counterexample:
  "(case probe (stub_world []) edge_scanner of
      Inr s1 \<Rightarrow> (found_count s1 mod 10 = 0 \<and> found_count s1 > 0) \<or> current_num s1 mod 50 = 0
    | Inl e \<Rightarrow> False) \<and>
   writes (events (snd (step_state (scan_body (stub_world []) (edge_scanner, empty_sys))))) = []"
  by code_simp

subsection \<open>C5: a due checkpoint is written\<close>

text \<open>
  Claim C5. For a scanner with \<open>start \<le> end\<close> and \<open>start \<le> current_num \<le> end + 1\<close>
  (the invariants of the scan state): after a lookup that leaves \<^verbatim>\<open>found_count > 0\<close> and
  \<^verbatim>\<open>found_count\<close> a multiple of 10 or \<^verbatim>\<open>current_num\<close> a multiple of 50, the pass of the
  loop body stores the document of the current scanner in the checkpoint file: it holds
  the scanner's records and its current number.
\<close>

theorem checkpoint_when_due:
  assumes "probe w s = Inr s1"
      and "found_count s1 > 0"
      and "found_count s1 mod 10 = 0 \<or> current_num s1 mod 50 = 0"
      and "start s \<le> end_num s"
      and "start s \<le> current_num s"
      and "current_num s \<le> end_num s + 1"
  shows "\<exists>doc. progress_data w s1 (Suc (length (events y))) = Inr doc \<and>
               files (snd (step_state (scan_body w (s, y)))) (temp_file s) = Some doc \<and>
               writes (events (snd (step_state (scan_body w (s, y))))) = writes (events y) @ [doc] \<and>
               py_get doc ''land_parcels'' (JArr []) = Inr (land_parcels s1) \<and>
               stored_last_checked doc = Inr (JInt (current_num s1))"
proof -
  from probe_config [OF assms(1)] assms(4,5,6)
  have rng: "start s1 \<le> end_num s1" "start s1 \<le> current_num s1"
      "current_num s1 \<le> end_num s1 + 1"
    and cfg: "temp_file s1 = temp_file s" by simp_all
  from progress_data_ok [OF rng]
  obtain doc where doc: "progress_data w s1 (Suc (length (events y))) = Inr doc" by blast
  have due: "checkpoint_due s1" using assms(2,3) by (simp add: checkpoint_due_def)
  let ?y1 = "y\<lparr> events := events y @ [Probe (parcel_id s)] \<rparr>"
  have sv: "snd (save_progress w s1 ?y1) =
      ?y1\<lparr> files := (files ?y1)(temp_file s1 \<mapsto> doc), events := events ?y1 @ [Wrote (temp_file s1) doc] \<rparr>"
    by (rule save_progress_writes) (simp add: doc)
  have "files (snd (step_state (scan_body w (s, y)))) (temp_file s) = Some doc"
    using due cfg by (simp add: scan_body_after_probe [OF assms(1)] Let_def sv)
  moreover have "writes (events (snd (step_state (scan_body w (s, y))))) = writes (events y) @ [doc]"
    using due by (simp add: scan_body_after_probe [OF assms(1)] Let_def sv writes_append)
  ultimately show ?thesis using doc progress_data_fields [OF doc] by blast
qed

text \<open>Witness for C5: parcel 50 is found at identifier 50.\<close>

theorem checkpoint_when_due_witness:
  "case probe fifty_world edge_scanner of
     Inr s1 \<Rightarrow>
       found_count s1 > 0 \<and> current_num s1 mod 50 = 0 \<and>
       length (writes (events (snd (step_state (scan_body fifty_world (edge_scanner, empty_sys)))))) = 1 \<and>
       (case files (snd (step_state (scan_body fifty_world (edge_scanner, empty_sys))))
               (temp_file edge_scanner) of
          Some doc \<Rightarrow> stored_last_checked doc = Inr (JInt (current_num s1)) \<and>
                      py_get doc ''land_parcels'' (JArr []) = Inr (land_parcels s1)
        | None \<Rightarrow> False)
   | Inl e \<Rightarrow> False"
proof -
  have "case probe fifty_world edge_scanner of
          Inr s1 \<Rightarrow> found_count s1 > 0 \<and> current_num s1 mod 50 = 0
        | Inl e \<Rightarrow> False"
    by code_simp
  then obtain s1 where p: "probe fifty_world edge_scanner = Inr s1"
    and f: "found_count s1 > 0" and c: "current_num s1 mod 50 = 0"
    by (auto split: sum.splits)
  have r: "start edge_scanner \<le> end_num edge_scanner"
      "start edge_scanner \<le> current_num edge_scanner"
      "current_num edge_scanner \<le> end_num edge_scanner + 1"
    by (simp_all add: edge_scanner_def init_scanner_def)
  from c have c': "found_count s1 mod 10 = 0 \<or> current_num s1 mod 50 = 0" by simp
  from checkpoint_when_due [OF p f c' r, of empty_sys] p f c
  show ?thesis by (auto simp: empty_sys_def)
qed

subsection \<open>C6: early stop\<close>

text \<open>
  Claim C6, as amended. If a scan reaches identifier \<open>k\<close> with the streak at 0 and the
  limit at 100, the lookup call gives \<^verbatim>\<open>None\<close> for each of the 100 identifiers \<open>k\<close> to
  \<open>k + 99\<close>, and \<open>k + 99 \<le> end\<close>, then the scan ends with \<^verbatim>\<open>current_num = k + 99\<close> and
  \<^verbatim>\<open>not_found_streak = 100\<close>, and from \<open>k\<close> on it looks up exactly the identifiers \<open>k\<close>
  to \<open>k + 99\<close>.
\<close>

theorem early_stop_after_100_misses:
  assumes "iterate_body w n (s0, y0) = Some (s, y)"
      and "current_num s = k" and "not_found_streak s = 0" and "max_not_found s = 100"
      and "misses_from w (kvartal_number s) k 100"
      and "k + 99 \<le> end_num s"
  shows "fst (snd (scan w s0 y0)) = s\<lparr> not_found_streak := 100, current_num := k + 99 \<rparr> \<and>
         probed (events (snd (snd (scan w s0 y0)))) =
           probed (events y) @ map (\<lambda>i. kvartal_number s @ '':'' @ str_int i) [k .. k + 99]"
proof -
  have a: "misses_from w (kvartal_number s) (current_num s) 100" using assms(2,5) by simp
  have b: "not_found_streak s + int 100 = max_not_found s" using assms(3,4) by simp
  have c: "current_num s + int 100 - 1 \<le> end_num s" using assms(2,6) by simp
  have d: "0 < (100::nat)" by simp
  from misses_run [OF a d b c, of y]
  obtain y' where l0: "scan_loop w (s, y) =
           (None, s\<lparr> not_found_streak := max_not_found s,
                      current_num := current_num s + int 100 - 1 \<rparr>, y')"
    and p0: "probed (events y') =
          probed (events y) @
          map (\<lambda>i. kvartal_number s @ '':'' @ str_int i) [current_num s .. current_num s + int 100 - 1]"
    by blast
  have e1: "s\<lparr> not_found_streak := max_not_found s, current_num := current_num s + int 100 - 1 \<rparr> =
            s\<lparr> not_found_streak := 100, current_num := k + 99 \<rparr>"
    using assms(2,4) by simp
  have e0: "current_num s + int 100 - 1 = k + 99" using assms(2) by simp
  have e2: "[current_num s .. current_num s + int 100 - 1] = [k .. k + 99]"
    unfolding e0 by (simp only: assms(2))
  from l0 e1 have l: "scan_loop w (s, y) =
           (None, s\<lparr> not_found_streak := 100, current_num := k + 99 \<rparr>, y')" by simp
  from p0 e2 have p: "probed (events y') =
          probed (events y) @ map (\<lambda>i. kvartal_number s @ '':'' @ str_int i) [k .. k + 99]"
    by simp
  from iterate_body_scan_loop [OF assms(1)] l
  have "scan_loop w (s0, y0) = (None, s\<lparr> not_found_streak := 100, current_num := k + 99 \<rparr>, y')"
    by simp
  with p show ?thesis by (simp add: scan_scanner scan_probed)
qed

text \<open>Witness for C6: an empty block scanned over the range 1 to 150 stops at 100.\<close>

theorem early_stop_after_100_misses_witness:
  "misses_from (stub_world []) ''77:01:0001001'' 1 100 \<and>
   fst (snd (scan (stub_world []) long_scanner empty_sys)) =
     long_scanner\<lparr> not_found_streak := 100, current_num := 100 \<rparr> \<and>
   probed (events (snd (snd (scan (stub_world []) long_scanner empty_sys)))) =
     map (\<lambda>i. ''77:01:0001001:'' @ str_int i) [1 .. 100]"
proof -
  have m: "misses_from (stub_world []) ''77:01:0001001'' 1 100"
    by code_simp
  have i: "iterate_body (stub_world []) 0 (long_scanner, empty_sys) = Some (long_scanner, empty_sys)"
    by simp
  have f: "current_num long_scanner = 1" "not_found_streak long_scanner = 0"
      "max_not_found long_scanner = 100" "1 + 99 \<le> end_num long_scanner"
      "kvartal_number long_scanner = ''77:01:0001001''"
    by (simp_all add: long_scanner_def init_scanner_def)
  from m f(5) have m': "misses_from (stub_world []) (kvartal_number long_scanner) 1 100" by simp
  from early_stop_after_100_misses [OF i f(1) f(2) f(3) m' f(4)] m f(5)
  show ?thesis by (simp add: empty_sys_def)
qed

text \<open>
  Counterexample to C6 as stated: the lookup misses on the 100 identifiers from \<open>k = 1\<close>
  and \<open>k < end = 5\<close>, but the range ends first: the scan ends with \<^verbatim>\<open>current_num = 6\<close> and a
  streak of 5.
\<close>

theorem early_stop_counterexample:
  "misses_from (stub_world []) ''77:01:0001001'' 1 100 \<and>
   current_num example_scanner = 1 \<and> current_num example_scanner < end_num example_scanner \<and>
   current_num (fst (snd (scan (stub_world []) example_scanner empty_sys))) = 6 \<and>
   not_found_streak (fst (snd (scan (stub_world []) example_scanner empty_sys))) = 5"
  by code_simp

subsection \<open>C7: checkpoint round trip\<close>

text \<open>
  Claim C7. For a scanner that satisfies the invariants of the scan state
  (\<^verbatim>\<open>found_count\<close> is the length of the records, \<open>start \<le> end\<close> and
  \<open>start \<le> current_num \<le> end + 1\<close>): after \<^verbatim>\<open>save_progress\<close>, \<^verbatim>\<open>load_progress\<close> on
  a scanner with the same checkpoint path yields the same records, the same
  \<^verbatim>\<open>found_count\<close>, and as resume point the stored \<^verbatim>\<open>last_checked\<close> plus 1.
\<close>

theorem checkpoint_round_trip:
  assumes "py_len (land_parcels s) = Inr (found_count s)"
      and "start s \<le> end_num s"
      and "start s \<le> current_num s"
      and "current_num s \<le> end_num s + 1"
      and "temp_file s0 = temp_file s"
  shows "land_parcels (snd (load_progress w s0 (snd (save_progress w s y)))) = land_parcels s \<and>
         found_count (snd (load_progress w s0 (snd (save_progress w s y)))) = found_count s \<and>
         current_num (snd (load_progress w s0 (snd (save_progress w s y)))) = current_num s + 1"
proof -
  from progress_data_ok [OF assms(2,3,4)]
  obtain doc where doc: "progress_data w s (length (events y)) = Inr doc" by blast
  have f: "files (snd (save_progress w s y)) (temp_file s0) = Some doc"
    by (simp add: save_progress_config_free assms(5) doc)
  from progress_data_fields [OF doc]
  have g: "py_get doc ''land_parcels'' (JArr []) = Inr (land_parcels s)"
    and l: "stored_last_checked doc = Inr (JInt (current_num s))" by simp_all
  show ?thesis
    by (simp add: load_progress_def f g l assms(1) py_bind_def Let_def)
qed

text \<open>Witness for C7: a scanner with one record, at identifier 3.\<close>

theorem checkpoint_round_trip_witness:
  "py_len (land_parcels midway_scanner) = Inr (found_count midway_scanner) \<and>
   land_parcels (snd (load_progress example_world example_scanner
                        (snd (save_progress example_world midway_scanner empty_sys)))) =
     JArr [JObj [(K_CAD_NUM, JStr ''77:01:0001001:2'')]] \<and>
   found_count (snd (load_progress example_world example_scanner
                       (snd (save_progress example_world midway_scanner empty_sys)))) = 1 \<and>
   current_num (snd (load_progress example_world example_scanner
                       (snd (save_progress example_world midway_scanner empty_sys)))) = 4"
proof -
  have a: "py_len (land_parcels midway_scanner) = Inr (found_count midway_scanner)"
    by (simp add: midway_scanner_def)
  have b: "start midway_scanner \<le> end_num midway_scanner"
      "start midway_scanner \<le> current_num midway_scanner"
      "current_num midway_scanner \<le> end_num midway_scanner + 1"
    by (simp_all add: midway_scanner_def example_scanner_def init_scanner_def)
  have c: "temp_file example_scanner = temp_file midway_scanner"
    by (simp add: midway_scanner_def)
  from checkpoint_round_trip [OF a b c, of example_world empty_sys] a
  show ?thesis by (simp add: midway_scanner_def)
qed

subsection \<open>C8: a failed lookup is a miss\<close>

text \<open>
  Claim C8. When the lookup call itself fails (the request raises, the status is neither
  200 nor 404, or the body does not decode), the lookup raises nothing, adds 1 to the
  streak and leaves records and count alone; the pass of the loop body is the very one a
  404 answer gives, and it goes on to the next identifier unless the streak has reached
  the limit.
\<close>

theorem lookup_failure_counts_as_miss:
  assumes "lookup_failed (remote w (parcel_id s))"
  shows "probe w s = Inr (s\<lparr> not_found_streak := not_found_streak s + 1 \<rparr>) \<and>
         scan_body w (s, y) = scan_body (w\<lparr> remote := \<lambda>p. Response 404 None \<rparr>) (s, y) \<and>
         (\<exists>y'. scan_body w (s, y) =
            (if max_not_found s \<le> not_found_streak s + 1
             then Stopped (s\<lparr> not_found_streak := not_found_streak s + 1 \<rparr>, y')
             else Advanced (s\<lparr> not_found_streak := not_found_streak s + 1,
                               current_num := current_num s + 1 \<rparr>, y')))"
proof -
  let ?w' = "w\<lparr> remote := \<lambda>p. Response 404 None \<rparr>"
  let ?s1 = "s\<lparr> not_found_streak := not_found_streak s + 1 \<rparr>"
  have miss: "fetch_parcel_data w (parcel_id s) = JNull"
    by (rule fetch_failed [OF assms])
  have p: "probe w s = Inr ?s1"
    by (rule probe_miss [OF miss])
  have p': "probe ?w' s = Inr ?s1"
    by (rule probe_miss) (simp add: fetch_parcel_data_def)
  have sv: "save_progress ?w' = save_progress w"
    by (intro ext) (simp add: save_progress_def progress_data_def export_ok_def)
  have same: "scan_body w (s, y) = scan_body ?w' (s, y)"
    by (simp only: scan_body_after_probe [OF p] scan_body_after_probe [OF p'] sv)
  from scan_body_miss [OF miss, of y] p same show ?thesis by blast
qed

text \<open>Witness for C8: a remote whose every request raises.\<close>

theorem lookup_failure_counts_as_miss_witness:
  "lookup_failed (remote failing_world (parcel_id example_scanner)) \<and>
   probe failing_world example_scanner = Inr (example_scanner\<lparr> not_found_streak := 1 \<rparr>) \<and>
   scan_body failing_world (example_scanner, empty_sys) =
     scan_body (failing_world\<lparr> remote := \<lambda>p. Response 404 None \<rparr>) (example_scanner, empty_sys)"
proof -
  have h: "lookup_failed (remote failing_world (parcel_id example_scanner))"
    by (simp add: failing_world_def lookup_failed_def)
  have z: "not_found_streak example_scanner = 0"
    by (simp add: example_scanner_def init_scanner_def)
  from lookup_failure_counts_as_miss [OF h, of empty_sys] h z show ?thesis by simp
qed

subsection \<open>C9: what \<^verbatim>\<open>scan\<close> returns\<close>

text \<open>
  Claim C9. \<^verbatim>\<open>scan\<close> returns \<^verbatim>\<open>None\<close> when the records are empty at the end, and also
  when an exception reaches the \<^verbatim>\<open>except\<close> clause of line 227: the caller cannot tell a
  run without finds from an aborted one.
\<close>

theorem scan_none_on_empty_or_fatal:
  assumes "\<not> py_truthy (land_parcels (fst (snd (scan w s y)))) \<or> (\<exists>e. fst (scan_try w s y) = Inl e)"
  shows "fst (scan w s y) = None"
proof (cases "fst (scan_try w s y)")
  case (Inl e)
  then show ?thesis by (simp add: scan_result_cases)
next
  case (Inr res)
  with assms have "\<not> py_truthy (land_parcels (fst (snd (scan_try w s y))))"
    by (simp add: scan_scanner_eq)
  with scan_try_result [OF Inr] Inr show ?thesis by (simp add: scan_result_cases)
qed

text \<open>
  Witness for C9: an empty block gives \<^verbatim>\<open>None\<close>, and so does the example block when
  \<^verbatim>\<open>pd.DataFrame\<close> raises at line 225, although a parcel was found.
\<close>

theorem scan_none_on_empty_or_fatal_witness:
  "\<not> py_truthy (land_parcels (fst (snd (scan (stub_world []) example_scanner empty_sys)))) \<and>
   fst (scan (stub_world []) example_scanner empty_sys) = None \<and>
   fst (scan_try no_frame_world example_scanner empty_sys) = Inl PandasError \<and>
   fst (scan no_frame_world example_scanner empty_sys) = None"
proof -
  have a: "\<not> py_truthy (land_parcels (fst (snd (scan (stub_world []) example_scanner empty_sys))))"
    by code_simp
  have b: "fst (scan_try no_frame_world example_scanner empty_sys) = Inl PandasError"
    by code_simp
  from a have "fst (scan (stub_world []) example_scanner empty_sys) = None"
    by (intro scan_none_on_empty_or_fatal) simp
  moreover from b have "fst (scan no_frame_world example_scanner empty_sys) = None"
    by (intro scan_none_on_empty_or_fatal) simp
  ultimately show ?thesis using a b by simp
qed

subsection \<open>C10: the count after loading\<close>

text \<open>
  Claim C10. After a successful \<^verbatim>\<open>load_progress\<close>, \<^verbatim>\<open>found_count\<close> is the length of the
  loaded records, which are what the checkpoint holds under \<^verbatim>\<open>land_parcels\<close>; the
  \<^verbatim>\<open>stats\<close> of the checkpoint are not read.
\<close>

theorem load_rederives_found_count:
  assumes "load_progress w s y = (True, s')"
  shows "py_len (land_parcels s') = Inr (found_count s') \<and>
         (\<exists>data. files y (temp_file s) = Some data \<and>
                 py_get data ''land_parcels'' (JArr []) = Inr (land_parcels s'))"
  using assms
  by (auto simp: load_progress_def Let_def split: option.splits sum.splits)

text \<open>
  Witness for C10: a checkpoint with one record whose \<^verbatim>\<open>stats\<close> say
  \<^verbatim>\<open>found_count = 7\<close> loads with \<^verbatim>\<open>found_count = 1\<close>.
\<close>

theorem load_rederives_found_count_witness:
  "load_progress example_world example_scanner mismatched_sys =
     (True, example_scanner\<lparr> land_parcels := JArr [JObj [(K_CAD_NUM, JStr ''77:01:0001001:2'')]],
                             found_count := 1, current_num := 4 \<rparr>) \<and>
   py_len (JArr [JObj [(K_CAD_NUM, JStr ''77:01:0001001:2'')]]) = Inr 1"
proof -
  have l: "load_progress example_world example_scanner mismatched_sys =
     (True, example_scanner\<lparr> land_parcels := JArr [JObj [(K_CAD_NUM, JStr ''77:01:0001001:2'')]],
                             found_count := 1, current_num := 4 \<rparr>)"
    by code_simp
  from load_rederives_found_count [OF l] l show ?thesis by simp
qed

end
